theory Spec2Isabelle
  imports Complex_Main
begin

section \<open>Floating-point values\<close>

text \<open>
  The trading core computes on IEEE doubles (Python \<open>float\<close>, \<open>numpy.float64\<close>).
  A value is modelled as the not-a-number marker or an exact real: rounding, the
  infinities and the sign of zero are not modelled. Every comparison with \<open>NaN\<close> is
  false and every arithmetic operation with a \<open>NaN\<close> operand is \<open>NaN\<close>, as in the
  source's arithmetic.

  A product, sum, difference or quotient of the model stands for the one the source
  computes. Apart from the drawdown example of the kill switch, which the specification
  gives for the numbers 10000 and 0.05, the theorems below state which operations
  produce a value and how computed values are compared; they state no sign, bound or
  algebraic identity of a computed value, which rounding, underflow or overflow could
  break. The worked examples compute on integers and binary fractions, on which the
  operations of the doubles are exact; the other decimal constants in them are only
  stored, copied or compared.
\<close>

datatype float64 = NaN | Val real

fun isnan :: "float64 \<Rightarrow> bool" where
  "isnan NaN = True"
| "isnan (Val _) = False"

fun f_lt :: "float64 \<Rightarrow> float64 \<Rightarrow> bool" where
  "f_lt (Val a) (Val b) = (a < b)"
| "f_lt _ _ = False"

fun f_le :: "float64 \<Rightarrow> float64 \<Rightarrow> bool" where
  "f_le (Val a) (Val b) = (a \<le> b)"
| "f_le _ _ = False"

definition f_gt :: "float64 \<Rightarrow> float64 \<Rightarrow> bool" where
  "f_gt a b = f_lt b a"

definition f_ge :: "float64 \<Rightarrow> float64 \<Rightarrow> bool" where
  "f_ge a b = f_le b a"

fun f_eq :: "float64 \<Rightarrow> float64 \<Rightarrow> bool" where
  "f_eq (Val a) (Val b) = (a = b)"
| "f_eq _ _ = False"

fun f_add :: "float64 \<Rightarrow> float64 \<Rightarrow> float64" where
  "f_add (Val a) (Val b) = Val (a + b)"
| "f_add _ _ = NaN"

fun f_sub :: "float64 \<Rightarrow> float64 \<Rightarrow> float64" where
  "f_sub (Val a) (Val b) = Val (a - b)"
| "f_sub _ _ = NaN"

fun f_mul :: "float64 \<Rightarrow> float64 \<Rightarrow> float64" where
  "f_mul (Val a) (Val b) = Val (a * b)"
| "f_mul _ _ = NaN"

text \<open>
  Division of \<open>numpy.float64\<close> values. A zero divisor gives an infinity or \<open>NaN\<close> in
  numpy; the model has no infinities and answers \<open>NaN\<close>. Every division of the
  modelled code either is guarded against a zero divisor or divides by a period, so
  this case is reached for a period of zero only, where the dividend is \<open>NaN\<close> already.
\<close>

fun f_div :: "float64 \<Rightarrow> float64 \<Rightarrow> float64" where
  "f_div (Val a) (Val b) = (if b = 0 then NaN else Val (a / b))"
| "f_div _ _ = NaN"

fun f_abs :: "float64 \<Rightarrow> float64" where
  "f_abs (Val a) = Val \<bar>a\<bar>"
| "f_abs NaN = NaN"

fun f_neg :: "float64 \<Rightarrow> float64" where
  "f_neg (Val a) = Val (- a)"
| "f_neg NaN = NaN"

datatype py_error = IndexError | ZeroDivisionError

section \<open>strategy/risk\_manager.py: TrailingStopManager\<close>

record TrailingState =
  ticket :: int
  entry_price :: float64
  initial_sl :: float64
  current_sl :: float64
  risk_distance :: float64
  is_breakeven :: bool
  is_trailing :: bool

record TrailingStopManager =
  breakeven_rr :: float64
  trailing_atr_mult :: float64
  positions :: "int \<rightharpoonup> TrailingState"

definition new_TrailingStopManager :: "float64 \<Rightarrow> float64 \<Rightarrow> TrailingStopManager" where
  "new_TrailingStopManager be_rr atr_mult =
     \<lparr>breakeven_rr = be_rr, trailing_atr_mult = atr_mult, positions = Map.empty\<rparr>"

definition register_position ::
  "TrailingStopManager \<Rightarrow> int \<Rightarrow> float64 \<Rightarrow> float64 \<Rightarrow> float64 \<Rightarrow> TrailingStopManager" where
  "register_position m tk entry stop_loss risk =
     m\<lparr>positions := (positions m)(tk \<mapsto>
        \<lparr>ticket = tk, entry_price = entry, initial_sl = stop_loss, current_sl = stop_loss,
         risk_distance = risk, is_breakeven = False, is_trailing = False\<rparr>)\<rparr>"

definition unregister_position :: "TrailingStopManager \<Rightarrow> int \<Rightarrow> TrailingStopManager" where
  "unregister_position m tk =
     (if tk \<in> dom (positions m) then m\<lparr>positions := (positions m)(tk := None)\<rparr> else m)"

text \<open>The profit of the position in units of its risk distance, as \<open>update\<close> computes it.\<close>

definition profit_rr :: "TrailingState \<Rightarrow> float64 \<Rightarrow> bool \<Rightarrow> float64" where
  "profit_rr state current_price is_long =
     (let profit_distance =
            (if is_long then f_sub current_price (entry_price state)
             else f_sub (entry_price state) current_price)
      in if f_gt (risk_distance state) (Val 0)
         then f_div profit_distance (risk_distance state) else Val 0)"

text \<open>The condition of the breakeven branch of \<open>update\<close>.\<close>

definition breakeven_fires ::
  "TrailingStopManager \<Rightarrow> TrailingState \<Rightarrow> float64 \<Rightarrow> bool \<Rightarrow> bool" where
  "breakeven_fires m state current_price is_long =
     (\<not> is_breakeven state \<and> f_ge (profit_rr state current_price is_long) (breakeven_rr m))"

text \<open>
  The body of \<open>update\<close> on the state object found for the ticket: the state after the
  call and the returned \<open>new_sl\<close> (\<open>None\<close> when the stop is not changed).
\<close>

definition update_state ::
  "TrailingStopManager \<Rightarrow> TrailingState \<Rightarrow> float64 \<Rightarrow> float64 \<Rightarrow> bool
     \<Rightarrow> TrailingState \<times> float64 option" where
  "update_state m state current_price current_atr is_long =
     (if breakeven_fires m state current_price is_long then
        (state\<lparr>is_breakeven := True, is_trailing := True, current_sl := entry_price state\<rparr>,
         Some (entry_price state))
      else if is_trailing state then
        (let trailing_distance = f_mul current_atr (trailing_atr_mult m) in
         if is_long then
           (let potential_sl = f_sub current_price trailing_distance in
            if f_gt potential_sl (current_sl state)
            then (state\<lparr>current_sl := potential_sl\<rparr>, Some potential_sl)
            else (state, None))
         else
           (let potential_sl = f_add current_price trailing_distance in
            if f_lt potential_sl (current_sl state)
            then (state\<lparr>current_sl := potential_sl\<rparr>, Some potential_sl)
            else (state, None)))
      else (state, None))"

text \<open>
  \<open>TrailingStopManager.update\<close>: the manager after the call and the returned value.
  An unknown ticket logs a warning and returns \<open>None\<close>.
\<close>

definition update ::
  "TrailingStopManager \<Rightarrow> int \<Rightarrow> float64 \<Rightarrow> float64 \<Rightarrow> bool
     \<Rightarrow> TrailingStopManager \<times> float64 option" where
  "update m tk current_price current_atr is_long =
     (case positions m tk of
        None \<Rightarrow> (m, None)
      | Some state \<Rightarrow>
          (let (state', new_sl) = update_state m state current_price current_atr is_long
           in (m\<lparr>positions := (positions m)(tk \<mapsto> state')\<rparr>, new_sl)))"

definition get_state :: "TrailingStopManager \<Rightarrow> int \<Rightarrow> TrailingState option" where
  "get_state m tk = positions m tk"

text \<open>
  \<open>in_profit_direction long a b\<close>: the price \<open>b\<close> lies strictly in the profit direction
  from the price \<open>a\<close>, above it for a long position and below it for a short one.
\<close>

definition in_profit_direction :: "bool \<Rightarrow> float64 \<Rightarrow> float64 \<Rightarrow> bool" where
  "in_profit_direction long a b = (if long then f_lt a b else f_lt b a)"

text \<open>Successive \<open>update\<close> calls on one ticket, each with its price, ATR and direction.\<close>

fun updates ::
  "TrailingStopManager \<Rightarrow> int \<Rightarrow> (float64 \<times> float64 \<times> bool) list \<Rightarrow> TrailingStopManager" where
  "updates m tk [] = m"
| "updates m tk ((p, a, l) # us) = updates (fst (update m tk p a l)) tk us"

section \<open>strategy/kill\_switch.py: KillSwitch\<close>

text \<open>
  The MetaTrader 5 terminal, as far as the kill switch uses it. \<open>account_info_at k\<close> is
  the equity reported by the \<open>k\<close>-th call of \<open>account_info()\<close> (\<open>None\<close> when the call
  fails) and \<open>account_info_calls\<close> counts the calls made so far; \<open>positions_get\<close> and
  \<open>symbol_info_tick\<close> are the terminal's answers; \<open>order_send_retcode\<close> is the return
  code of the result of \<open>order_send\<close> (\<open>None\<close> when it returns no result) and
  \<open>orders_sent\<close> records the requests passed to it, oldest first.
\<close>

record TradePosition =
  pos_ticket :: int
  pos_symbol :: string
  pos_type :: int
  pos_volume :: float64
  pos_magic :: int

record Tick =
  bid :: float64
  ask :: float64

record TradeRequest =
  req_action :: int
  req_position :: int
  req_symbol :: string
  req_volume :: float64
  req_type :: int
  req_price :: float64
  req_deviation :: int
  req_magic :: int
  req_comment :: string
  req_type_time :: int
  req_type_filling :: int

record MT5 =
  account_info_at :: "nat \<Rightarrow> float64 option"
  account_info_calls :: nat
  positions_get :: "TradePosition list option"
  symbol_info_tick :: "string \<Rightarrow> Tick option"
  order_send_retcode :: "TradeRequest \<Rightarrow> int option"
  orders_sent :: "TradeRequest list"

text \<open>Constants of the MetaTrader5 package.\<close>

definition ORDER_TYPE_BUY :: int where "ORDER_TYPE_BUY = 0"
definition ORDER_TYPE_SELL :: int where "ORDER_TYPE_SELL = 1"
definition TRADE_ACTION_DEAL :: int where "TRADE_ACTION_DEAL = 1"
definition ORDER_TIME_GTC :: int where "ORDER_TIME_GTC = 0"
definition ORDER_FILLING_IOC :: int where "ORDER_FILLING_IOC = 1"
definition TRADE_RETCODE_DONE :: int where "TRADE_RETCODE_DONE = 10009"


definition order_send :: "MT5 \<Rightarrow> TradeRequest \<Rightarrow> int option \<times> MT5" where
  "order_send t request =
     (order_send_retcode t request, t\<lparr>orders_sent := orders_sent t @ [request]\<rparr>)"

record KillSwitch =
  drawdown_limit :: float64
  magic_number :: int
  starting_equity :: "float64 option"
  is_triggered :: bool
  is_initialized :: bool

definition new_KillSwitch :: "float64 \<Rightarrow> int \<Rightarrow> KillSwitch" where
  "new_KillSwitch limit magic =
     \<lparr>drawdown_limit = limit, magic_number = magic, starting_equity = None,
      is_triggered = False, is_initialized = False\<rparr>"




text \<open>The closing request \<open>execute_kill\<close> builds for a position and the tick of its symbol.\<close>

definition close_request :: "TradePosition \<Rightarrow> Tick \<Rightarrow> TradeRequest" where
  "close_request pos tick =
     \<lparr>req_action = TRADE_ACTION_DEAL,
      req_position = pos_ticket pos,
      req_symbol = pos_symbol pos,
      req_volume = pos_volume pos,
      req_type = (if pos_type pos = ORDER_TYPE_BUY then ORDER_TYPE_SELL else ORDER_TYPE_BUY),
      req_price = (if pos_type pos = ORDER_TYPE_BUY then bid tick else ask tick),
      req_deviation = 50,
      req_magic = pos_magic pos,
      req_comment = ''KILL SWITCH'',
      req_type_time = ORDER_TIME_GTC,
      req_type_filling = ORDER_FILLING_IOC\<rparr>"

text \<open>The loop of \<open>execute_kill\<close> over the positions, with the running \<open>closed_count\<close>.\<close>

fun close_positions :: "KillSwitch \<Rightarrow> TradePosition list \<Rightarrow> nat \<Rightarrow> MT5 \<Rightarrow> nat \<times> MT5" where
  "close_positions ks [] closed_count t = (closed_count, t)"
| "close_positions ks (pos # rest) closed_count t =
     (if magic_number ks > 0 \<and> pos_magic pos \<noteq> magic_number ks
      then close_positions ks rest closed_count t
      else
        (case symbol_info_tick t (pos_symbol pos) of
           None \<Rightarrow> close_positions ks rest closed_count t
         | Some tick \<Rightarrow>
             (let (result, t') = order_send t (close_request pos tick)
              in close_positions ks rest
                   (if result = Some TRADE_RETCODE_DONE then closed_count + 1 else closed_count)
                   t')))"

definition execute_kill :: "KillSwitch \<Rightarrow> MT5 \<Rightarrow> nat \<times> KillSwitch \<times> MT5" where
  "execute_kill ks t =
     (if \<not> is_triggered ks then (0, ks, t)
      else
        (case positions_get t of
           None \<Rightarrow> (0, ks, t)
         | Some ps \<Rightarrow> (let (n, t') = close_positions ks ps 0 t in (n, ks, t'))))"

section \<open>strategy/indicators.py\<close>

text \<open>
  Arrays are lists of \<open>float64\<close>. A period is a natural number (the source annotates
  \<open>int\<close>; negative periods are not modelled).
\<close>

definition np_mean :: "float64 list \<Rightarrow> float64" where
  "np_mean xs =
     (if xs = [] then NaN else f_div (foldl f_add (Val 0) xs) (Val (real (length xs))))"

definition np_diff :: "float64 list \<Rightarrow> float64 list" where
  "np_diff xs = map (\<lambda>(a, b). f_sub b a) (zip xs (tl xs))"

text \<open>The loop of \<open>calculate_ema\<close>: \<open>prev\<close> is \<open>ema[i - 1]\<close>, the list is \<open>data[i:]\<close>.\<close>

fun ema_loop :: "float64 \<Rightarrow> float64 \<Rightarrow> float64 list \<Rightarrow> float64 list" where
  "ema_loop multiplier prev [] = []"
| "ema_loop multiplier prev (x # xs) =
     (let e = f_add (f_mul (f_sub x prev) multiplier) prev
      in e # ema_loop multiplier e xs)"

text \<open>
  \<open>calculate_ema\<close>. For a period of zero the source writes the mean of the empty slice,
  which is \<open>NaN\<close>, to \<open>ema[-1]\<close>: an \<open>IndexError\<close> on an empty array, and otherwise the
  loop starts from \<open>ema[-1]\<close> at index 0 and every value stays \<open>NaN\<close>.
\<close>

definition calculate_ema :: "float64 list \<Rightarrow> nat \<Rightarrow> py_error + float64 list" where
  "calculate_ema data period =
     (if length data < period then Inr (replicate (length data) NaN)
      else if period = 0 then
        (if data = [] then Inl IndexError else Inr (replicate (length data) NaN))
      else
        (let seed = np_mean (take period data);
             multiplier = Val (2 / (real period + 1))
         in Inr (replicate (period - 1) NaN @ seed # ema_loop multiplier seed (drop period data))))"

definition rsi_of :: "float64 \<Rightarrow> float64 \<Rightarrow> float64" where
  "rsi_of avg_gain avg_loss =
     (if f_eq avg_loss (Val 0) then Val 100
      else (let rs = f_div avg_gain avg_loss
            in f_sub (Val 100) (f_div (Val 100) (f_add (Val 1) rs))))"

text \<open>Wilder's smoothing step \<open>(avg * (period - 1) + x) / period\<close>.\<close>

definition wilder :: "nat \<Rightarrow> float64 \<Rightarrow> float64 \<Rightarrow> float64" where
  "wilder period avg x =
     f_div (f_add (f_mul avg (Val (real period - 1))) x) (Val (real period))"

fun rsi_loop :: "nat \<Rightarrow> float64 \<Rightarrow> float64 \<Rightarrow> (float64 \<times> float64) list \<Rightarrow> float64 list" where
  "rsi_loop period avg_gain avg_loss [] = []"
| "rsi_loop period avg_gain avg_loss ((g, l) # rest) =
     (let avg_gain' = wilder period avg_gain g;
          avg_loss' = wilder period avg_loss l
      in rsi_of avg_gain' avg_loss' # rsi_loop period avg_gain' avg_loss' rest)"

text \<open>\<open>calculate_rsi\<close>; no statement of it can raise, so the model has no error result.\<close>

definition calculate_rsi :: "float64 list \<Rightarrow> nat \<Rightarrow> float64 list" where
  "calculate_rsi data period =
     (if length data < period + 1 then replicate (length data) NaN
      else
        (let deltas = np_diff data;
             gains = map (\<lambda>d. if f_gt d (Val 0) then d else Val 0) deltas;
             losses = map (\<lambda>d. if f_lt d (Val 0) then f_neg d else Val 0) deltas;
             avg_gain = np_mean (take period gains);
             avg_loss = np_mean (take period losses)
         in replicate period NaN @ rsi_of avg_gain avg_loss
              # rsi_loop period avg_gain avg_loss (drop period (zip gains losses))))"

text \<open>Python's \<open>max(a, b, c)\<close>: a later argument replaces the maximum when it is greater.\<close>

definition py_max3 :: "float64 \<Rightarrow> float64 \<Rightarrow> float64 \<Rightarrow> float64" where
  "py_max3 a b c = (let m = (if f_gt b a then b else a) in if f_gt c m then c else m)"

definition true_range :: "float64 list \<Rightarrow> float64 list \<Rightarrow> float64 list \<Rightarrow> nat \<Rightarrow> float64" where
  "true_range high low close i =
     (if i = 0 then f_sub (high ! 0) (low ! 0)
      else py_max3 (f_sub (high ! i) (low ! i))
                   (f_abs (f_sub (high ! i) (close ! (i - 1))))
                   (f_abs (f_sub (low ! i) (close ! (i - 1)))))"

fun atr_loop :: "nat \<Rightarrow> float64 \<Rightarrow> float64 list \<Rightarrow> float64 list" where
  "atr_loop period prev [] = []"
| "atr_loop period prev (x # xs) =
     (let a = wilder period prev x in a # atr_loop period a xs)"

text \<open>
  \<open>calculate_atr\<close>. The result has the length of \<open>close\<close>; past the length check the
  source reads \<open>high[i]\<close> and \<open>low[i]\<close> for every index of \<open>close\<close>, an \<open>IndexError\<close>
  when one of them is shorter.
\<close>

definition calculate_atr ::
  "float64 list \<Rightarrow> float64 list \<Rightarrow> float64 list \<Rightarrow> nat \<Rightarrow> py_error + float64 list" where
  "calculate_atr high low close period =
     (let n = length close in
      if n < period + 1 then Inr (replicate n NaN)
      else if length high < n \<or> length low < n then Inl IndexError
      else
        (let tr = map (true_range high low close) [0..<n];
             seed = np_mean (take period (drop 1 tr))
         in Inr (replicate period NaN @ seed # atr_loop period seed (drop (period + 1) tr))))"

section \<open>strategy/signals.py\<close>

datatype SignalType = NONE | LONG | SHORT

record Signal =
  signal_type :: SignalType
  signal_entry_price :: float64
  ema_value :: float64
  rsi_value :: float64

definition is_valid :: "Signal \<Rightarrow> bool" where
  "is_valid s = (signal_type s \<noteq> NONE)"

record SignalGenerator =
  ema_period :: nat
  rsi_period :: nat
  rsi_oversold :: float64
  rsi_overbought :: float64

text \<open>The truth value of a float: zero is false, every other value (also \<open>NaN\<close>) is true.\<close>

fun float_truthy :: "float64 \<Rightarrow> bool" where
  "float_truthy NaN = True"
| "float_truthy (Val x) = (x \<noteq> 0)"

text \<open>
  \<open>current_close = current_price if current_price else close_prices[-1]\<close>, on a
  non-empty series; \<open>current_price\<close> is \<open>None\<close> when the argument is omitted.
\<close>

definition current_close_of :: "float64 list \<Rightarrow> float64 option \<Rightarrow> float64" where
  "current_close_of close_prices current_price =
     (case current_price of
        None \<Rightarrow> last close_prices
      | Some p \<Rightarrow> if float_truthy p then p else last close_prices)"

text \<open>
  \<open>SignalGenerator.generate\<close>.
  Past the length check the arrays have at least two elements, so the reads of
  \<open>ema[-1]\<close>, \<open>rsi[-1]\<close> and \<open>rsi[-2]\<close> are in range.
\<close>

definition generate :: "SignalGenerator \<Rightarrow> float64 list \<Rightarrow> float64 option \<Rightarrow> py_error + Signal" where
  "generate sg close_prices current_price =
     (if length close_prices < max (ema_period sg) (rsi_period sg) + 2 then
        Inr \<lparr>signal_type = NONE, signal_entry_price = Val 0, ema_value = Val 0, rsi_value = Val 0\<rparr>
      else
        (case calculate_ema close_prices (ema_period sg) of
           Inl e \<Rightarrow> Inl e
         | Inr ema \<Rightarrow>
            (let rsi = calculate_rsi close_prices (rsi_period sg);
                 current_close = current_close_of close_prices current_price;
                 current_ema = last ema;
                 current_rsi = last rsi;
                 previous_rsi = rsi ! (length rsi - 2)
             in if isnan current_ema \<or> isnan current_rsi \<or> isnan previous_rsi then
                  Inr \<lparr>signal_type = NONE, signal_entry_price = current_close,
                       ema_value = (if \<not> isnan current_ema then current_ema else Val 0),
                       rsi_value = (if \<not> isnan current_rsi then current_rsi else Val 0)\<rparr>
                else
                  (let signal_type =
                         (if f_gt current_close current_ema then
                            (if f_le previous_rsi (rsi_oversold sg) \<and> f_lt (rsi_oversold sg) current_rsi
                             then LONG else NONE)
                          else if f_lt current_close current_ema then
                            (if f_ge previous_rsi (rsi_overbought sg) \<and> f_gt (rsi_overbought sg) current_rsi
                             then SHORT else NONE)
                          else NONE)
                   in Inr \<lparr>signal_type = signal_type, signal_entry_price = current_close,
                           ema_value = current_ema, rsi_value = current_rsi\<rparr>))))"

section \<open>strategy/risk\_manager.py: RiskManager\<close>

record RiskLevels =
  stop_loss :: float64
  take_profit :: float64
  atr_value :: float64
  levels_risk_distance :: float64



section \<open>main.py: the trailing step of TradingBot.on\_bar\<close>

record PositionInfo =
  pi_ticket :: int
  pi_symbol :: string
  pi_type :: int
  pi_volume :: float64
  pi_price_open :: float64
  pi_sl :: float64
  pi_tp :: float64
  pi_profit :: float64
  pi_magic :: int

definition is_long :: "PositionInfo \<Rightarrow> bool" where
  "is_long pos = (pi_type pos = ORDER_TYPE_BUY)"

text \<open>\<open>current_atr = atr[-1] if not np.isnan(atr[-1]) else 0\<close>, on a non-empty array.\<close>

definition current_atr_of :: "float64 list \<Rightarrow> float64" where
  "current_atr_of atr = (if \<not> isnan (last atr) then last atr else Val 0)"

text \<open>
  The loop of step 3 over the open positions: the trailing manager after it and the
  \<open>modify_position\<close> calls it makes (ticket and new stop), in order.
\<close>

fun manage_positions ::
  "TrailingStopManager \<Rightarrow> float64 \<Rightarrow> float64 \<Rightarrow> PositionInfo list
     \<Rightarrow> TrailingStopManager \<times> (int \<times> float64) list" where
  "manage_positions tm current_price current_atr [] = (tm, [])"
| "manage_positions tm current_price current_atr (pos # rest) =
     (let (tm', new_sl) = update tm (pi_ticket pos) current_price current_atr (is_long pos);
          (tm'', mods) = manage_positions tm' current_price current_atr rest
      in (tm'', (case new_sl of None \<Rightarrow> mods | Some sl \<Rightarrow> (pi_ticket pos, sl) # mods)))"

text \<open>
  Lines 256--279 of \<open>on_bar\<close>, from the read of the current price to the end of the
  position loop, for the configured ATR period and the open positions the executor
  returned. \<open>close_prices[-1]\<close> raises on an empty series.
\<close>

definition on_bar_trailing ::
  "nat \<Rightarrow> TrailingStopManager \<Rightarrow> float64 list \<Rightarrow> float64 list \<Rightarrow> float64 list
     \<Rightarrow> PositionInfo list \<Rightarrow> py_error + TrailingStopManager \<times> (int \<times> float64) list" where
  "on_bar_trailing ATR_PERIOD tm high_prices low_prices close_prices open_positions =
     (if close_prices = [] then Inl IndexError
      else
        (let current_price = last close_prices in
         case calculate_atr high_prices low_prices close_prices ATR_PERIOD of
           Inl e \<Rightarrow> Inl e
         | Inr atr \<Rightarrow>
             Inr (manage_positions tm current_price (current_atr_of atr) open_positions)))"

section \<open>Theorems\<close>

subsection \<open>The trailing stop manager: auxiliary facts\<close>

lemma update_known:
  "positions m tk = Some s \<Longrightarrow>
   update m tk p a l =
     (m\<lparr>positions := (positions m)(tk \<mapsto> fst (update_state m s p a l))\<rparr>,
      snd (update_state m s p a l))"
  by (simp add: update_def split: prod.splits)

lemma update_state_step:
  assumes "is_breakeven s \<or>
           (\<not> is_trailing s \<and> in_profit_direction l (current_sl s) (entry_price s))"
  shows "(case snd (update_state m s p a l) of
            None \<Rightarrow> current_sl (fst (update_state m s p a l)) = current_sl s
          | Some v \<Rightarrow> current_sl (fst (update_state m s p a l)) = v \<and>
                in_profit_direction l (current_sl s) v)"
  using assms
  by (auto simp: update_state_def breakeven_fires_def Let_def f_gt_def in_profit_direction_def)

lemma update_state_inv:
  assumes "is_breakeven s \<or>
           (\<not> is_trailing s \<and> in_profit_direction l (current_sl s) (entry_price s))"
  shows "is_breakeven (fst (update_state m s p a l')) \<or>
         (\<not> is_trailing (fst (update_state m s p a l')) \<and>
          in_profit_direction l (current_sl (fst (update_state m s p a l')))
            (entry_price (fst (update_state m s p a l'))))"
  using assms
  by (auto simp: update_state_def breakeven_fires_def Let_def f_gt_def in_profit_direction_def)

lemma updates_inv:
  assumes "positions m tk = Some s"
    and "is_breakeven s \<or>
         (\<not> is_trailing s \<and> in_profit_direction l (current_sl s) (entry_price s))"
  shows "\<exists>s'. positions (updates m tk us) tk = Some s' \<and>
        (is_breakeven s' \<or>
         (\<not> is_trailing s' \<and> in_profit_direction l (current_sl s') (entry_price s')))"
  using assms
proof (induction us arbitrary: m s)
  case Nil
  then show ?case by simp
next
  case (Cons u us)
  obtain p a l' where u: "u = (p, a, l')" by (cases u)
  let ?m = "fst (update m tk p a l')"
  let ?s = "fst (update_state m s p a l')"
  have pos: "positions ?m tk = Some ?s"
    using Cons.prems(1) by (simp add: update_known)
  have inv: "is_breakeven ?s \<or>
             (\<not> is_trailing ?s \<and> in_profit_direction l (current_sl ?s) (entry_price ?s))"
    using Cons.prems(2) by (rule update_state_inv)
  from Cons.IH [OF pos inv] show ?case using u by simp
qed

subsection \<open>Monotone stops\<close>

text \<open>
  C1 (as amended): for a position registered with its stop strictly on the loss side of
  its entry price (below the entry for a long position, above it for a short one) and
  every sequence of \<open>update\<close> calls on it in the position's direction, each further
  update either returns \<open>None\<close> and leaves the stored stop untouched, or returns a new
  stop that is stored and lies strictly beyond the previous one in the profit direction:
  higher for a long position, lower for a short one.
\<close>

theorem trailing_stop_monotone:
  assumes side: "in_profit_direction long stop entry"
    and m1: "m1 = updates (register_position m tk entry stop risk) tk
                    (map (\<lambda>(p, a). (p, a, long)) us)"
    and step: "update m1 tk price atr long = (m2, r)"
  shows "\<exists>c1 c2. map_option current_sl (get_state m1 tk) = Some c1 \<and>
           map_option current_sl (get_state m2 tk) = Some c2 \<and>
           (case r of None \<Rightarrow> c2 = c1
            | Some v \<Rightarrow> c2 = v \<and> in_profit_direction long c1 v)"
proof -
  let ?m0 = "register_position m tk entry stop risk"
  let ?s0 = "\<lparr>ticket = tk, entry_price = entry, initial_sl = stop, current_sl = stop,
         risk_distance = risk, is_breakeven = False, is_trailing = False\<rparr>"
  have pos0: "positions ?m0 tk = Some ?s0" by (simp add: register_position_def)
  have inv0: "is_breakeven ?s0 \<or>
              (\<not> is_trailing ?s0 \<and> in_profit_direction long (current_sl ?s0) (entry_price ?s0))"
    using side by simp
  from updates_inv [OF pos0 inv0] m1 obtain s1 where
    s1: "positions m1 tk = Some s1"
    and inv1: "is_breakeven s1 \<or>
              (\<not> is_trailing s1 \<and> in_profit_direction long (current_sl s1) (entry_price s1))"
    by blast
  from step s1 have m2: "positions m2 tk = Some (fst (update_state m1 s1 price atr long))"
    and r: "r = snd (update_state m1 s1 price atr long)"
    by (auto simp: update_known)
  from update_state_step [OF inv1, of m1 price atr] show ?thesis
    using s1 m2 r by (simp add: get_state_def)
qed

theorem trailing_stop_monotone_witness:
  "f_lt (Val 98) (Val 100) \<and>
   (\<exists>c1 c2.
      map_option current_sl (get_state
        (updates (register_position (new_TrailingStopManager (Val 1) (Val 1)) 1 (Val 100) (Val 98) (Val 2)) 1
           [(Val 102, Val 1, True)]) 1) = Some c1 \<and>
      map_option current_sl (get_state
        (fst (update
           (updates (register_position (new_TrailingStopManager (Val 1) (Val 1)) 1 (Val 100) (Val 98) (Val 2)) 1
              [(Val 102, Val 1, True)]) 1 (Val 104) (Val 1) True)) 1) = Some c2 \<and>
      snd (update
           (updates (register_position (new_TrailingStopManager (Val 1) (Val 1)) 1 (Val 100) (Val 98) (Val 2)) 1
              [(Val 102, Val 1, True)]) 1 (Val 104) (Val 1) True) = Some c2 \<and>
      c1 = Val 100 \<and> c2 = Val 103 \<and> f_lt c1 c2)"
proof -
  let ?m1 = "updates (register_position (new_TrailingStopManager (Val 1) (Val 1)) 1 (Val 100) (Val 98) (Val 2)) 1
               (map (\<lambda>(p, a). (p, a, True)) [(Val 102, Val 1)])"
  have side: "in_profit_direction True (Val 98) (Val 100)"
    by (simp add: in_profit_direction_def)
  have step: "update ?m1 1 (Val 104) (Val 1) True
                = (fst (update ?m1 1 (Val 104) (Val 1) True), snd (update ?m1 1 (Val 104) (Val 1) True))"
    by simp
  have r: "snd (update ?m1 1 (Val 104) (Val 1) True) = Some (Val 103)"
    by (simp add: update_def update_state_def breakeven_fires_def profit_rr_def f_gt_def f_ge_def
        register_position_def new_TrailingStopManager_def Let_def)
  have c1: "map_option current_sl (get_state ?m1 1) = Some (Val 100)"
    by (simp add: update_def update_state_def breakeven_fires_def profit_rr_def f_gt_def f_ge_def
        register_position_def new_TrailingStopManager_def Let_def get_state_def)
  from trailing_stop_monotone [OF side refl step] r c1 show ?thesis
    by auto
qed

text \<open>
  The claim as stated, for every registered position, fails: a long position registered
  with entry 100 and stop 105 has its stop lowered to 100 by the breakeven move at
  price 110.
\<close>

theorem trailing_stop_monotone_counterexample:
  "map_option current_sl (get_state
      (register_position (new_TrailingStopManager (Val 1) (Val 1)) 1 (Val 100) (Val 105) (Val 5)) 1)
     = Some (Val 105) \<and>
   snd (update (register_position (new_TrailingStopManager (Val 1) (Val 1)) 1 (Val 100) (Val 105) (Val 5))
          1 (Val 110) (Val 1) True) = Some (Val 100) \<and>
   map_option current_sl (get_state
      (fst (update (register_position (new_TrailingStopManager (Val 1) (Val 1)) 1 (Val 100) (Val 105) (Val 5))
          1 (Val 110) (Val 1) True)) 1)
     = Some (Val 100) \<and>
   f_lt (Val 100) (Val 105)"
  by (simp add: update_def update_state_def breakeven_fires_def profit_rr_def f_gt_def f_ge_def
      register_position_def new_TrailingStopManager_def get_state_def Let_def)


subsection \<open>Unknown tickets\<close>

text \<open>
  C5 (as amended): \<open>update\<close> on a ticket that is not registered returns normally, leaves
  the manager unchanged and returns \<open>None\<close>, the value that also stands for
  "no stop change".
\<close>

theorem update_unknown_ticket:
  "positions m tk = None \<Longrightarrow> update m tk current_price current_atr long = (m, None)"
  by (simp add: update_def)

theorem update_unknown_ticket_witness:
  "positions (new_TrailingStopManager (Val 1) (Val 1)) 7 = None \<and>
   update (new_TrailingStopManager (Val 1) (Val 1)) 7 (Val 100) (Val 1) True
     = (new_TrailingStopManager (Val 1) (Val 1), None)"
  using update_unknown_ticket [of "new_TrailingStopManager (Val 1) (Val 1)" 7 "Val 100" "Val 1" True]
  by (simp add: new_TrailingStopManager_def)

text \<open>
  The claim as stated fails: for the manager holding ticket 1 (entry 100, stop 98, risk
  distance 2), an update at price 100 of the unknown ticket 2 and one of the registered
  ticket 1, whose stop does not change, return the same value.
\<close>

theorem update_unknown_ticket_counterexample:
  "positions (register_position (new_TrailingStopManager (Val 1) (Val 1)) 1 (Val 100) (Val 98) (Val 2)) 2 = None \<and>
   positions (register_position (new_TrailingStopManager (Val 1) (Val 1)) 1 (Val 100) (Val 98) (Val 2)) 1 \<noteq> None \<and>
   snd (update (register_position (new_TrailingStopManager (Val 1) (Val 1)) 1 (Val 100) (Val 98) (Val 2))
          2 (Val 100) (Val 1) True)
     = snd (update (register_position (new_TrailingStopManager (Val 1) (Val 1)) 1 (Val 100) (Val 98) (Val 2))
          1 (Val 100) (Val 1) True)"
  by (simp add: update_def update_state_def breakeven_fires_def profit_rr_def f_gt_def f_ge_def
      register_position_def new_TrailingStopManager_def)

subsection \<open>Breakeven\<close>

lemma updates_before_breakeven:
  assumes "positions m tk = Some s" and "\<not> is_breakeven s" and "\<not> is_trailing s"
    and "\<forall>(p, a, l) \<in> set us. \<not> f_ge (profit_rr s p l) (breakeven_rr m)"
  shows "updates m tk us = m"
  using assms
proof (induction us)
  case Nil
  then show ?case by simp
next
  case (Cons u us)
  obtain p a l where u: "u = (p, a, l)" by (cases u)
  have "update_state m s p a l = (s, None)"
    using Cons.prems u by (simp add: update_state_def breakeven_fires_def)
  then have "fst (update m tk p a l) = m"
    using Cons.prems(1) by (simp add: update_known map_upd_triv)
  then show ?case using Cons u by simp
qed

lemma updates_flags:
  "positions m tk = Some s \<Longrightarrow> is_breakeven s \<Longrightarrow> is_trailing s \<Longrightarrow>
   \<exists>s'. positions (updates m tk us) tk = Some s' \<and> is_breakeven s' \<and> is_trailing s' \<and>
        breakeven_rr (updates m tk us) = breakeven_rr m \<and>
        trailing_atr_mult (updates m tk us) = trailing_atr_mult m"
proof (induction us arbitrary: m s)
  case Nil
  then show ?case by simp
next
  case (Cons u us)
  obtain p a l where u: "u = (p, a, l)" by (cases u)
  let ?m = "fst (update m tk p a l)"
  let ?s = "fst (update_state m s p a l)"
  have pos: "positions ?m tk = Some ?s"
    and cfg: "breakeven_rr ?m = breakeven_rr m" "trailing_atr_mult ?m = trailing_atr_mult m"
    using Cons.prems(1) by (simp_all add: update_known)
  have flags: "is_breakeven ?s" "is_trailing ?s"
    using Cons.prems(2,3) by (auto simp: update_state_def breakeven_fires_def Let_def)
  from Cons.IH [OF pos flags] show ?case using cfg u by simp
qed

lemma update_trailing_only:
  assumes "positions m tk = Some s" and "is_breakeven s" and "is_trailing s"
  shows "update m tk p a l =
     (let potential_sl = (if l then f_sub p (f_mul a (trailing_atr_mult m))
                          else f_add p (f_mul a (trailing_atr_mult m)))
      in if in_profit_direction l (current_sl s) potential_sl
         then (m\<lparr>positions := (positions m)(tk \<mapsto> s\<lparr>current_sl := potential_sl\<rparr>)\<rparr>,
               Some potential_sl)
         else (m, None))"
  using assms
  by (simp add: update_known update_state_def breakeven_fires_def Let_def f_gt_def
      in_profit_direction_def map_upd_triv)

lemma update_before_breakeven:
  assumes "positions m tk = Some s" and "\<not> is_breakeven s" and "\<not> is_trailing s"
    and "\<not> f_ge (profit_rr s p l) (breakeven_rr m)"
  shows "update m tk p a l = (m, None)"
  using assms
  by (simp add: update_known update_state_def breakeven_fires_def map_upd_triv)

text \<open>
  C2: for a registered position, let the updates \<open>pre\<close> all have a profit ratio below
  the breakeven ratio and let the next update be the first to reach it. The updates
  \<open>pre\<close> return \<open>None\<close> and leave the manager as it was registered. The next update
  takes the breakeven branch: it returns the entry price, stores it as the stop and sets
  both flags. Every later update of the position, whatever its price, ATR and direction,
  finds the breakeven flag set and the condition of the breakeven branch false, and does
  what the trailing branch alone does: it stores and returns the trailing stop when
  that lies strictly beyond the current stop in the profit direction, and otherwise
  returns \<open>None\<close> and changes nothing, so the breakeven move is never made again.
  The profit ratio of an update is computed from the entry price and risk distance
  of the position, which no update changes.
\<close>

theorem breakeven_fires_once:
  assumes reg: "get_state (register_position m tk entry stop risk) tk = Some s0"
    and before: "\<forall>(p, a, l) \<in> set pre. \<not> f_ge (profit_rr s0 p l) (breakeven_rr m)"
    and first: "f_ge (profit_rr s0 price long) (breakeven_rr m)"
    and m0: "m0 = register_position m tk entry stop risk"
    and m2: "m2 = m0\<lparr>positions := (positions m0)(tk \<mapsto>
                    s0\<lparr>is_breakeven := True, is_trailing := True, current_sl := entry\<rparr>)\<rparr>"
  shows "(\<forall>(p, a, l) \<in> set pre. update m0 tk p a l = (m0, None)) \<and>
         updates m0 tk pre = m0 \<and>
         update (updates m0 tk pre) tk price atr long = (m2, Some entry) \<and>
         map_option current_sl (get_state m2 tk) = Some entry \<and>
         (\<forall>post p' a' l'. \<exists>s.
            get_state (updates m2 tk post) tk = Some s \<and> is_breakeven s \<and>
            \<not> breakeven_fires (updates m2 tk post) s p' l' \<and>
            update (updates m2 tk post) tk p' a' l' =
              (let potential_sl = (if l' then f_sub p' (f_mul a' (trailing_atr_mult m))
                                   else f_add p' (f_mul a' (trailing_atr_mult m)))
               in if in_profit_direction l' (current_sl s) potential_sl
                  then ((updates m2 tk post)\<lparr>positions :=
                          (positions (updates m2 tk post))(tk \<mapsto> s\<lparr>current_sl := potential_sl\<rparr>)\<rparr>,
                        Some potential_sl)
                  else (updates m2 tk post, None)))"
proof -
  have s0: "s0 = \<lparr>ticket = tk, entry_price = entry, initial_sl = stop, current_sl = stop,
         risk_distance = risk, is_breakeven = False, is_trailing = False\<rparr>"
    using reg by (simp add: register_position_def get_state_def)
  have pos0: "positions m0 tk = Some s0"
    using reg m0 by (simp add: get_state_def)
  have cfg0: "breakeven_rr m0 = breakeven_rr m" "trailing_atr_mult m0 = trailing_atr_mult m"
    by (simp_all add: m0 register_position_def)
  have flags0: "\<not> is_breakeven s0" "\<not> is_trailing s0"
    by (simp_all add: s0)
  have quiet: "\<forall>(p, a, l) \<in> set pre. update m0 tk p a l = (m0, None)"
    using before update_before_breakeven [OF pos0 flags0] by (auto simp: cfg0)
  have pre: "updates m0 tk pre = m0"
    using pos0 flags0 before by (intro updates_before_breakeven) (simp_all add: cfg0)
  have fires: "breakeven_fires m0 s0 price long"
    using first by (simp add: breakeven_fires_def s0 cfg0)
  let ?s2 = "s0\<lparr>is_breakeven := True, is_trailing := True, current_sl := entry\<rparr>"
  have us: "update_state m0 s0 price atr long = (?s2, Some entry)"
    using fires by (simp add: update_state_def s0)
  have step: "update (updates m0 tk pre) tk price atr long = (m2, Some entry)"
    using pos0 us by (simp add: pre m2 update_known)
  have pos2: "positions m2 tk = Some ?s2" by (simp add: m2)
  have cfg2: "trailing_atr_mult m2 = trailing_atr_mult m"
    by (simp add: m2 cfg0)
  have stop2: "map_option current_sl (get_state m2 tk) = Some entry"
    by (simp add: get_state_def m2)
  have later: "\<exists>s. get_state (updates m2 tk post) tk = Some s \<and> is_breakeven s \<and>
            \<not> breakeven_fires (updates m2 tk post) s p' l' \<and>
            update (updates m2 tk post) tk p' a' l' =
              (let potential_sl = (if l' then f_sub p' (f_mul a' (trailing_atr_mult m))
                                   else f_add p' (f_mul a' (trailing_atr_mult m)))
               in if in_profit_direction l' (current_sl s) potential_sl
                  then ((updates m2 tk post)\<lparr>positions :=
                          (positions (updates m2 tk post))(tk \<mapsto> s\<lparr>current_sl := potential_sl\<rparr>)\<rparr>,
                        Some potential_sl)
                  else (updates m2 tk post, None))" for post p' a' l'
  proof -
    from updates_flags [OF pos2, of post] obtain s' where
      s': "positions (updates m2 tk post) tk = Some s'" "is_breakeven s'" "is_trailing s'"
      and cfg: "trailing_atr_mult (updates m2 tk post) = trailing_atr_mult m2"
      by auto
    from update_trailing_only [OF s', of p' a' l'] s' cfg cfg2 show ?thesis
      by (auto simp: get_state_def breakeven_fires_def)
  qed
  from quiet pre step stop2 later show ?thesis by blast
qed

theorem breakeven_fires_once_witness:
  "get_state (register_position (new_TrailingStopManager (Val 1) (Val 1)) 1 (Val 100) (Val 98) (Val 2)) 1
     = Some \<lparr>ticket = 1, entry_price = Val 100, initial_sl = Val 98, current_sl = Val 98,
         risk_distance = Val 2, is_breakeven = False, is_trailing = False\<rparr> \<and>
   \<not> f_ge (profit_rr \<lparr>ticket = 1, entry_price = Val 100, initial_sl = Val 98, current_sl = Val 98,
         risk_distance = Val 2, is_breakeven = False, is_trailing = False\<rparr> (Val 101) True) (Val 1) \<and>
   f_ge (profit_rr \<lparr>ticket = 1, entry_price = Val 100, initial_sl = Val 98, current_sl = Val 98,
         risk_distance = Val 2, is_breakeven = False, is_trailing = False\<rparr> (Val 102) True) (Val 1) \<and>
   update (register_position (new_TrailingStopManager (Val 1) (Val 1)) 1 (Val 100) (Val 98) (Val 2))
       1 (Val 101) (Val 1) True
     = (register_position (new_TrailingStopManager (Val 1) (Val 1)) 1 (Val 100) (Val 98) (Val 2), None) \<and>
   update (updates (register_position (new_TrailingStopManager (Val 1) (Val 1)) 1 (Val 100) (Val 98) (Val 2))
             1 [(Val 101, Val 1, True)]) 1 (Val 102) (Val 1) True
     = (\<lparr>breakeven_rr = Val 1, trailing_atr_mult = Val 1,
         positions = [1 \<mapsto> \<lparr>ticket = 1, entry_price = Val 100, initial_sl = Val 98,
            current_sl = Val 100, risk_distance = Val 2, is_breakeven = True,
            is_trailing = True\<rparr>]\<rparr>,
        Some (Val 100)) \<and>
   map_option current_sl (get_state
       (updates \<lparr>breakeven_rr = Val 1, trailing_atr_mult = Val 1,
          positions = [1 \<mapsto> \<lparr>ticket = 1, entry_price = Val 100, initial_sl = Val 98,
            current_sl = Val 100, risk_distance = Val 2, is_breakeven = True,
            is_trailing = True\<rparr>]\<rparr> 1 [(Val 104, Val 1, True)]) 1) = Some (Val 103) \<and>
   update (updates \<lparr>breakeven_rr = Val 1, trailing_atr_mult = Val 1,
          positions = [1 \<mapsto> \<lparr>ticket = 1, entry_price = Val 100, initial_sl = Val 98,
            current_sl = Val 100, risk_distance = Val 2, is_breakeven = True,
            is_trailing = True\<rparr>]\<rparr> 1 [(Val 104, Val 1, True)]) 1 (Val 102) (Val 1) True
     = (updates \<lparr>breakeven_rr = Val 1, trailing_atr_mult = Val 1,
          positions = [1 \<mapsto> \<lparr>ticket = 1, entry_price = Val 100, initial_sl = Val 98,
            current_sl = Val 100, risk_distance = Val 2, is_breakeven = True,
            is_trailing = True\<rparr>]\<rparr> 1 [(Val 104, Val 1, True)], None)"
proof -
  let ?cfg = "new_TrailingStopManager (Val 1) (Val 1)"
  let ?reg = "register_position ?cfg 1 (Val 100) (Val 98) (Val 2)"
  let ?init = "\<lparr>ticket = 1, entry_price = Val 100, initial_sl = Val 98, current_sl = Val 98,
         risk_distance = Val 2, is_breakeven = False, is_trailing = False\<rparr>"
  let ?be = "\<lparr>breakeven_rr = Val 1, trailing_atr_mult = Val 1,
          positions = [1 \<mapsto> \<lparr>ticket = 1, entry_price = Val 100, initial_sl = Val 98,
            current_sl = Val 100, risk_distance = Val 2, is_breakeven = True,
            is_trailing = True\<rparr>]\<rparr>"
  let ?later = "updates ?be 1 [(Val 104, Val 1, True)]"
  have reg: "get_state ?reg 1 = Some ?init"
    by (simp add: register_position_def get_state_def)
  have before: "\<not> f_ge (profit_rr ?init (Val 101) True) (Val 1)"
    by (simp add: profit_rr_def f_ge_def f_gt_def)
  then have before': "\<forall>(p, a, l) \<in> set [(Val 101, Val 1, True)].
      \<not> f_ge (profit_rr ?init p l) (breakeven_rr ?cfg)"
    by (simp add: new_TrailingStopManager_def)
  have first: "f_ge (profit_rr ?init (Val 102) True) (Val 1)"
    by (simp add: profit_rr_def f_ge_def f_gt_def)
  then have first': "f_ge (profit_rr ?init (Val 102) True) (breakeven_rr ?cfg)"
    by (simp add: new_TrailingStopManager_def)
  have m2: "?be = ?reg\<lparr>positions := (positions ?reg)(1 \<mapsto>
                    ?init\<lparr>is_breakeven := True, is_trailing := True, current_sl := Val 100\<rparr>)\<rparr>"
    by (simp add: register_position_def new_TrailingStopManager_def)
  note once = breakeven_fires_once [OF reg before' first' refl m2, of "Val 1"]
  from once have quiet: "update ?reg 1 (Val 101) (Val 1) True = (?reg, None)"
    by simp
  from once have step: "update (updates ?reg 1 [(Val 101, Val 1, True)]) 1 (Val 102) (Val 1) True
      = (?be, Some (Val 100))"
    by blast
  have stop3: "map_option current_sl (get_state ?later 1) = Some (Val 103)"
    by (simp add: get_state_def update_def update_state_def breakeven_fires_def f_gt_def Let_def)
  from once obtain s where s: "get_state ?later 1 = Some s"
    and later: "update ?later 1 (Val 102) (Val 1) True =
      (let potential_sl = (if True then f_sub (Val 102) (f_mul (Val 1) (trailing_atr_mult ?cfg))
                           else f_add (Val 102) (f_mul (Val 1) (trailing_atr_mult ?cfg)))
       in if in_profit_direction True (current_sl s) potential_sl
          then (?later\<lparr>positions := (positions ?later)(1 \<mapsto> s\<lparr>current_sl := potential_sl\<rparr>)\<rparr>,
                Some potential_sl)
          else (?later, None))"
    by blast
  from s stop3 have "current_sl s = Val 103" by simp
  with later have again: "update ?later 1 (Val 102) (Val 1) True = (?later, None)"
    by (simp add: new_TrailingStopManager_def in_profit_direction_def)
  from reg before first quiet step stop3 again show ?thesis by blast
qed

subsection \<open>The kill switch\<close>









subsection \<open>Closing the positions\<close>

lemma close_positions_orders:
  "orders_sent (snd (close_positions ks ps n t)) =
     orders_sent t @
     List.map_filter (\<lambda>p. map_option (close_request p) (symbol_info_tick t (pos_symbol p)))
       (if magic_number ks > 0 then filter (\<lambda>p. pos_magic p = magic_number ks) ps else ps) \<and>
   symbol_info_tick (snd (close_positions ks ps n t)) = symbol_info_tick t"
proof (induction ps arbitrary: n t)
  case Nil
  then show ?case by (simp add: List.map_filter_simps)
next
  case (Cons p ps)
  show ?case
    by (cases "symbol_info_tick t (pos_symbol p)")
      (auto simp: Cons.IH order_send_def List.map_filter_simps)
qed

text \<open>
  C9 (as amended): \<open>execute_kill\<close> on a triggered kill switch sends one closing order for
  each position the terminal returns whose symbol has a tick, in order, and skips a
  position whose symbol has no tick. Positions are filtered by their magic number only
  when the kill switch's magic number is positive: with magic number 0, the constructor
  default, positions of every magic number are closed.
\<close>

theorem execute_kill_orders:
  assumes "is_triggered ks" and "positions_get t = Some ps"
  shows "orders_sent (snd (snd (execute_kill ks t))) =
     orders_sent t @
     List.map_filter (\<lambda>p. map_option (close_request p) (symbol_info_tick t (pos_symbol p)))
       (if magic_number ks > 0 then filter (\<lambda>p. pos_magic p = magic_number ks) ps else ps)"
  using assms close_positions_orders [of ks ps 0 t]
  by (cases "close_positions ks ps 0 t") (simp add: execute_kill_def)

theorem execute_kill_orders_witness:
  "orders_sent (snd (snd (execute_kill
      ((new_KillSwitch (Val 0.05) 0)\<lparr>is_triggered := True\<rparr>)
      \<lparr>account_info_at = (\<lambda>k. None), account_info_calls = 0,
       positions_get = Some
         [\<lparr>pos_ticket = 11, pos_symbol = ''EURUSD'', pos_type = 0, pos_volume = Val 0.01, pos_magic = 234000\<rparr>,
          \<lparr>pos_ticket = 12, pos_symbol = ''EURUSD'', pos_type = 1, pos_volume = Val 0.5, pos_magic = 777\<rparr>],
       symbol_info_tick = (\<lambda>s. Some \<lparr>bid = Val 1.1, ask = Val 1.2\<rparr>),
       order_send_retcode = (\<lambda>r. Some 10009), orders_sent = []\<rparr>)))
   = [\<lparr>req_action = 1, req_position = 11, req_symbol = ''EURUSD'', req_volume = Val 0.01,
       req_type = 1, req_price = Val 1.1, req_deviation = 50, req_magic = 234000,
       req_comment = ''KILL SWITCH'', req_type_time = 0, req_type_filling = 1\<rparr>,
      \<lparr>req_action = 1, req_position = 12, req_symbol = ''EURUSD'', req_volume = Val 0.5,
       req_type = 0, req_price = Val 1.2, req_deviation = 50, req_magic = 777,
       req_comment = ''KILL SWITCH'', req_type_time = 0, req_type_filling = 1\<rparr>]"
  using execute_kill_orders [of "(new_KillSwitch (Val 0.05) 0)\<lparr>is_triggered := True\<rparr>"
      "\<lparr>account_info_at = (\<lambda>k. None), account_info_calls = 0,
       positions_get = Some
         [\<lparr>pos_ticket = 11, pos_symbol = ''EURUSD'', pos_type = 0, pos_volume = Val 0.01, pos_magic = 234000\<rparr>,
          \<lparr>pos_ticket = 12, pos_symbol = ''EURUSD'', pos_type = 1, pos_volume = Val 0.5, pos_magic = 777\<rparr>],
       symbol_info_tick = (\<lambda>s. Some \<lparr>bid = Val 1.1, ask = Val 1.2\<rparr>),
       order_send_retcode = (\<lambda>r. Some 10009), orders_sent = []\<rparr>"]
  by (simp add: new_KillSwitch_def List.map_filter_simps close_request_def ORDER_TYPE_BUY_def
      ORDER_TYPE_SELL_def TRADE_ACTION_DEAL_def ORDER_TIME_GTC_def ORDER_FILLING_IOC_def)

text \<open>
  The claim as stated, a closing order for every position returned, fails where the
  terminal has no tick for a position's symbol: the position is skipped.
\<close>

theorem execute_kill_orders_counterexample:
  "execute_kill
      ((new_KillSwitch (Val 0.05) 0)\<lparr>is_triggered := True\<rparr>)
      \<lparr>account_info_at = (\<lambda>k. None), account_info_calls = 0,
       positions_get = Some
         [\<lparr>pos_ticket = 11, pos_symbol = ''EURUSD'', pos_type = 0, pos_volume = Val 0.01, pos_magic = 234000\<rparr>],
       symbol_info_tick = (\<lambda>s. None),
       order_send_retcode = (\<lambda>r. Some 10009), orders_sent = []\<rparr>
   = (0, (new_KillSwitch (Val 0.05) 0)\<lparr>is_triggered := True\<rparr>,
      \<lparr>account_info_at = (\<lambda>k. None), account_info_calls = 0,
       positions_get = Some
         [\<lparr>pos_ticket = 11, pos_symbol = ''EURUSD'', pos_type = 0, pos_volume = Val 0.01, pos_magic = 234000\<rparr>],
       symbol_info_tick = (\<lambda>s. None),
       order_send_retcode = (\<lambda>r. Some 10009), orders_sent = []\<rparr>)"
  by (simp add: execute_kill_def new_KillSwitch_def)

subsection \<open>Indicators on short series\<close>

text \<open>
  C8: for every period \<open>p \<ge> 1\<close> and every series with fewer than \<open>p\<close> elements,
  \<open>calculate_ema\<close>, \<open>calculate_rsi\<close> and \<open>calculate_atr\<close> (whose length test is on
  the close series, whatever the high and low series are) return normally an array of
  the length of the series that holds \<open>NaN\<close> only.
\<close>

theorem indicators_short_series:
  assumes "1 \<le> p" and "length data < p"
  shows "calculate_ema data p = Inr (replicate (length data) NaN) \<and>
         calculate_rsi data p = replicate (length data) NaN \<and>
         calculate_atr high low data p = Inr (replicate (length data) NaN)"
  using assms by (simp add: calculate_ema_def calculate_rsi_def calculate_atr_def)

theorem indicators_short_series_witness:
  "(1::nat) \<le> 3 \<and> length [Val 1, Val 2] < 3 \<and>
   calculate_ema [Val 1, Val 2] 3 = Inr [NaN, NaN] \<and>
   calculate_rsi [Val 1, Val 2] 3 = [NaN, NaN] \<and>
   calculate_atr [Val 3] [] [Val 1, Val 2] 3 = Inr [NaN, NaN]"
  using indicators_short_series [of 3 "[Val 1, Val 2]" "[Val 3]" "[]"]
  by (simp add: numeral_2_eq_2)

subsection \<open>Signals\<close>

lemma calculate_ema_nonempty:
  "data \<noteq> [] \<Longrightarrow> \<exists>ema. calculate_ema data period = Inr ema"
  by (simp add: calculate_ema_def Let_def)

lemma generate_entry_price:
  assumes "max (ema_period sg) (rsi_period sg) + 2 \<le> length close_prices"
  shows "\<exists>s. generate sg close_prices current_price = Inr s \<and>
             signal_entry_price s = current_close_of close_prices current_price"
proof -
  have "close_prices \<noteq> []" using assms by auto
  then obtain ema where "calculate_ema close_prices (ema_period sg) = Inr ema"
    using calculate_ema_nonempty by blast
  then show ?thesis using assms by (simp add: generate_def Let_def)
qed

lemma calculate_ema_example:
  "calculate_ema [Val 1, Val 2, Val 1] 1 = Inr [Val 1, Val 2, Val 1]"
  by (simp add: calculate_ema_def np_mean_def Let_def)

lemma calculate_rsi_example:
  "calculate_rsi [Val 1, Val 2, Val 1] 1 = [NaN, Val 100, Val 0]"
  by (simp add: calculate_rsi_def np_mean_def np_diff_def rsi_of_def wilder_def f_gt_def Let_def)

text \<open>
  C10: with sufficient history, \<open>generate\<close> called with \<open>current_price = 0.0\<close> returns
  the signal it returns with no \<open>current_price\<close>, whose entry price is the last close of
  the series; a \<open>current_price\<close> other than zero becomes the entry price.
\<close>

theorem generate_current_price_truthiness:
  assumes "max (ema_period sg) (rsi_period sg) + 2 \<le> length close_prices"
  shows "generate sg close_prices (Some (Val 0)) = generate sg close_prices None \<and>
         (\<exists>s. generate sg close_prices (Some (Val 0)) = Inr s \<and>
              signal_entry_price s = last close_prices) \<and>
         (\<forall>p. p \<noteq> Val 0 \<longrightarrow>
              (\<exists>s. generate sg close_prices (Some p) = Inr s \<and> signal_entry_price s = p))"
proof (intro conjI allI impI)
  have "current_close_of close_prices (Some (Val 0)) = current_close_of close_prices None"
    by (simp add: current_close_of_def)
  then show "generate sg close_prices (Some (Val 0)) = generate sg close_prices None"
    unfolding generate_def by (simp only:)
  show "\<exists>s. generate sg close_prices (Some (Val 0)) = Inr s \<and>
              signal_entry_price s = last close_prices"
    using generate_entry_price [OF assms, of "Some (Val 0)"] by (simp add: current_close_of_def)
next
  fix p :: float64
  assume "p \<noteq> Val 0"
  then have "float_truthy p" by (cases p) simp_all
  then show "\<exists>s. generate sg close_prices (Some p) = Inr s \<and> signal_entry_price s = p"
    using generate_entry_price [OF assms, of "Some p"] by (simp add: current_close_of_def)
qed

theorem generate_current_price_truthiness_witness:
  "max (ema_period \<lparr>ema_period = 1, rsi_period = 1, rsi_oversold = Val 30, rsi_overbought = Val 70\<rparr>)
       (rsi_period \<lparr>ema_period = 1, rsi_period = 1, rsi_oversold = Val 30, rsi_overbought = Val 70\<rparr>) + 2
     \<le> length [Val 1, Val 2, Val 1] \<and>
   generate \<lparr>ema_period = 1, rsi_period = 1, rsi_oversold = Val 30, rsi_overbought = Val 70\<rparr>
       [Val 1, Val 2, Val 1] (Some (Val 0))
     = generate \<lparr>ema_period = 1, rsi_period = 1, rsi_oversold = Val 30, rsi_overbought = Val 70\<rparr>
       [Val 1, Val 2, Val 1] None \<and>
   (\<exists>s. generate \<lparr>ema_period = 1, rsi_period = 1, rsi_oversold = Val 30, rsi_overbought = Val 70\<rparr>
          [Val 1, Val 2, Val 1] (Some (Val 0)) = Inr s \<and> signal_entry_price s = Val 1) \<and>
   (\<exists>s. generate \<lparr>ema_period = 1, rsi_period = 1, rsi_oversold = Val 30, rsi_overbought = Val 70\<rparr>
          [Val 1, Val 2, Val 1] (Some (Val 0.5)) = Inr s \<and> signal_entry_price s = Val 0.5)"
proof -
  let ?sg = "\<lparr>ema_period = 1, rsi_period = 1, rsi_oversold = Val 30, rsi_overbought = Val 70\<rparr>"
  let ?cs = "[Val 1, Val 2, Val 1]"
  have len: "max (ema_period ?sg) (rsi_period ?sg) + 2 \<le> length ?cs" by simp
  note gen = generate_current_price_truthiness [OF len]
  have l: "last ?cs = Val 1" by simp
  from gen have "generate ?sg ?cs (Some (Val 0)) = generate ?sg ?cs None"
    by (rule conjunct1)
  moreover from gen
  have "\<exists>s. generate ?sg ?cs (Some (Val 0)) = Inr s \<and> signal_entry_price s = last ?cs"
    by (rule conjunct1 [OF conjunct2])
  then have "\<exists>s. generate ?sg ?cs (Some (Val 0)) = Inr s \<and> signal_entry_price s = Val 1"
    by (simp only: l)
  moreover from gen
  have "\<forall>p. p \<noteq> Val 0 \<longrightarrow>
          (\<exists>s. generate ?sg ?cs (Some p) = Inr s \<and> signal_entry_price s = p)"
    by (rule conjunct2 [OF conjunct2])
  then have "Val 0.5 \<noteq> Val 0 \<longrightarrow>
          (\<exists>s. generate ?sg ?cs (Some (Val 0.5)) = Inr s \<and> signal_entry_price s = Val 0.5)"
    by (rule spec)
  then have "\<exists>s. generate ?sg ?cs (Some (Val 0.5)) = Inr s \<and> signal_entry_price s = Val 0.5"
    by simp
  ultimately show ?thesis using len by blast
qed

text \<open>
  C7: when the current close, as \<open>generate\<close> takes it, equals the current EMA, the
  last value of the EMA array, \<open>generate\<close> returns a signal of type \<open>NONE\<close>, whatever the
  RSI values and thresholds are.
\<close>

theorem generate_price_equals_ema:
  assumes "calculate_ema close_prices (ema_period sg) = Inr ema"
    and "f_eq (current_close_of close_prices current_price) (last ema)"
  shows "\<exists>s. generate sg close_prices current_price = Inr s \<and> signal_type s = NONE"
proof -
  obtain x where "current_close_of close_prices current_price = Val x" "last ema = Val x"
    using assms(2)
    by (cases "current_close_of close_prices current_price"; cases "last ema") simp_all
  then show ?thesis using assms(1) by (simp add: generate_def Let_def f_gt_def)
qed

text \<open>
  In the witness the RSI falls from 100 to 0 through the overbought threshold, the
  crossing of a short signal; the close equals the EMA and the signal is \<open>NONE\<close>.
\<close>

theorem generate_price_equals_ema_witness:
  "calculate_ema [Val 1, Val 2, Val 1] 1 = Inr [Val 1, Val 2, Val 1] \<and>
   calculate_rsi [Val 1, Val 2, Val 1] 1 = [NaN, Val 100, Val 0] \<and>
   f_eq (current_close_of [Val 1, Val 2, Val 1] None) (last [Val 1, Val 2, Val 1]) \<and>
   (\<exists>s. generate \<lparr>ema_period = 1, rsi_period = 1, rsi_oversold = Val 30, rsi_overbought = Val 70\<rparr>
          [Val 1, Val 2, Val 1] None = Inr s \<and> signal_type s = NONE)"
proof -
  let ?sg = "\<lparr>ema_period = 1, rsi_period = 1, rsi_oversold = Val 30, rsi_overbought = Val 70\<rparr>"
  have ema: "calculate_ema [Val 1, Val 2, Val 1] (ema_period ?sg) = Inr [Val 1, Val 2, Val 1]"
    using calculate_ema_example by simp
  have tie: "f_eq (current_close_of [Val 1, Val 2, Val 1] None) (last [Val 1, Val 2, Val 1])"
    by (simp add: current_close_of_def)
  from generate_price_equals_ema [OF ema tie] tie calculate_ema_example calculate_rsi_example
  show ?thesis by blast
qed

subsection \<open>Risk levels\<close>






subsection \<open>Trailing on a bar without ATR\<close>

lemma on_bar_trailing_undefined_atr:
  assumes "calculate_atr high low close ATR_PERIOD = Inr atr" and "close \<noteq> []"
    and "isnan (last atr)"
  shows "on_bar_trailing ATR_PERIOD tm high low close open_positions =
           Inr (manage_positions tm (last close) (Val 0) open_positions)"
  using assms by (simp add: on_bar_trailing_def current_atr_of_def)

text \<open>
  C4: the code at a failing input. The terminal returns three bars, so the ATR of period
  14 is undefined and \<open>on_bar\<close> passes zero for it. The open long position 1 (entry 100)
  is trailing with its stop at 100 after the breakeven move. The update of that bar is
  not skipped: with a trailing distance of zero it moves the stop to the current price
  103 and a \<open>modify_position\<close> call is made, where the claim has no stop change.
\<close>

theorem on_bar_undefined_atr_moves_stop:
  "calculate_atr [Val 102, Val 103, Val 104] [Val 100, Val 101, Val 101] [Val 101, Val 102, Val 103] 14
     = Inr [NaN, NaN, NaN] \<and>
   map_option current_sl (get_state
      (fst (update (register_position (new_TrailingStopManager (Val 1) (Val 1)) 1 (Val 100) (Val 98) (Val 2))
              1 (Val 102) (Val 1) True)) 1) = Some (Val 100) \<and>
   map_option is_trailing (get_state
      (fst (update (register_position (new_TrailingStopManager (Val 1) (Val 1)) 1 (Val 100) (Val 98) (Val 2))
              1 (Val 102) (Val 1) True)) 1) = Some True \<and>
   on_bar_trailing 14
      (fst (update (register_position (new_TrailingStopManager (Val 1) (Val 1)) 1 (Val 100) (Val 98) (Val 2))
              1 (Val 102) (Val 1) True))
      [Val 102, Val 103, Val 104] [Val 100, Val 101, Val 101] [Val 101, Val 102, Val 103]
      [\<lparr>pi_ticket = 1, pi_symbol = ''EURUSD'', pi_type = 0, pi_volume = Val 0.01,
        pi_price_open = Val 100, pi_sl = Val 100, pi_tp = Val 104, pi_profit = Val 0.03,
        pi_magic = 234000\<rparr>]
     = Inr (\<lparr>breakeven_rr = Val 1, trailing_atr_mult = Val 1,
            positions = [1 \<mapsto> \<lparr>ticket = 1, entry_price = Val 100, initial_sl = Val 98,
               current_sl = Val 103, risk_distance = Val 2, is_breakeven = True,
               is_trailing = True\<rparr>]\<rparr>,
           [(1, Val 103)])"
proof -
  let ?tm = "fst (update (register_position (new_TrailingStopManager (Val 1) (Val 1)) 1 (Val 100) (Val 98) (Val 2))
              1 (Val 102) (Val 1) True)"
  let ?s = "\<lparr>ticket = 1, entry_price = Val 100, initial_sl = Val 98,
               current_sl = Val 100, risk_distance = Val 2, is_breakeven = True,
               is_trailing = True\<rparr>"
  let ?r = "\<lparr>breakeven_rr = Val 1, trailing_atr_mult = Val 1, positions = [1 \<mapsto> ?s]\<rparr>"
  have tm: "?tm = ?r"
    by (simp add: update_def update_state_def breakeven_fires_def profit_rr_def f_gt_def f_ge_def
        register_position_def new_TrailingStopManager_def Let_def)
  have atr: "calculate_atr [Val 102, Val 103, Val 104] [Val 100, Val 101, Val 101]
               [Val 101, Val 102, Val 103] 14 = Inr [NaN, NaN, NaN]"
    by (simp add: calculate_atr_def numeral_3_eq_3)
  have bar: "on_bar_trailing 14 ?r [Val 102, Val 103, Val 104] [Val 100, Val 101, Val 101]
               [Val 101, Val 102, Val 103] ps
             = Inr (manage_positions ?r (Val 103) (Val 0) ps)" for ps
    using on_bar_trailing_undefined_atr [OF atr, of ?r ps] by simp
  have stop: "map_option current_sl (get_state ?r 1) = Some (Val 100)"
    and trailing: "map_option is_trailing (get_state ?r 1) = Some True"
    by (simp_all add: get_state_def)
  have moved: "manage_positions ?r (Val 103) (Val 0)
        [\<lparr>pi_ticket = 1, pi_symbol = ''EURUSD'', pi_type = 0, pi_volume = Val 0.01,
          pi_price_open = Val 100, pi_sl = Val 100, pi_tp = Val 104, pi_profit = Val 0.03,
          pi_magic = 234000\<rparr>]
      = (\<lparr>breakeven_rr = Val 1, trailing_atr_mult = Val 1,
            positions = [1 \<mapsto> \<lparr>ticket = 1, entry_price = Val 100, initial_sl = Val 98,
               current_sl = Val 103, risk_distance = Val 2, is_breakeven = True,
               is_trailing = True\<rparr>]\<rparr>,
         [(1, Val 103)])"
    by (simp add: update_def update_state_def breakeven_fires_def
        is_long_def ORDER_TYPE_BUY_def f_gt_def Let_def)
  show ?thesis
    by (simp only: tm atr bar stop trailing moved simp_thms)
qed

end
